theory Spec2Isabelle
  imports Complex_Main "HOL-Library.Sublist" "HOL-Library.Char_ord" "HOL-Library.List_Lexorder"
begin

section \<open>Data model of \<open>app.py\<close>\<close>

text \<open>
  One row of the data frame. The record is polymorphic in the types of the two columns
  that \<open>load_data\<close> touches: \<open>'d\<close> is the type of \<open>date_publication\<close> and
  \<open>'p\<close> the type of \<open>prix_eur\<close>. The other columns pass through the load unchanged.
\<close>

record ('d, 'p) row =
  titre :: string
  date_publication :: 'd
  annee :: int
  kilometrage_km :: int
  prix_eur :: 'p
  ville :: string
  type_vendeur :: string
  url :: string

text \<open>
  A listing is a row whose date is a parsed timestamp and whose price is a number.
  The format \<open>%d/%m/%Y\<close> carries no time of day, so every timestamp of the frame is a
  midnight and is modelled by its day number (days since 1970-01-01); \<open>.dt.date\<close> is
  then the identity and \<open>.dt.days\<close> of a difference is the difference of day numbers.
\<close>

type_synonym listing = "(int, int) row"

text \<open>
  The values of the sidebar widgets. \<open>st.date_input\<close> with a pair as value returns a
  tuple of zero, one or two dates (one while the user has picked only the start), so
  \<open>date_range\<close> is a list; the sliders return pairs; the multiselect returns a list.
\<close>

record criteria =
  date_range :: "int list"
  annee_range :: "int \<times> int"
  km_range :: "int \<times> int"
  prix_range :: "int \<times> int"
  type_vendeur_sel :: "string list"

section \<open>The filter block (lines 96--112)\<close>

definition filter_dates :: "int list \<Rightarrow> listing list \<Rightarrow> listing list" where
  "filter_dates dr df =
     (if length dr = 2
      then filter (\<lambda>l. dr ! 0 \<le> date_publication l \<and> date_publication l \<le> dr ! 1) df
      else df)"

definition row_mask :: "criteria \<Rightarrow> listing \<Rightarrow> bool" where
  "row_mask c l \<longleftrightarrow>
     fst (annee_range c) \<le> annee l \<and> annee l \<le> snd (annee_range c) \<and>
     fst (km_range c) \<le> kilometrage_km l \<and> kilometrage_km l \<le> snd (km_range c) \<and>
     fst (prix_range c) \<le> prix_eur l \<and> prix_eur l \<le> snd (prix_range c) \<and>
     type_vendeur l \<in> set (type_vendeur_sel c)"

definition apply_filters :: "criteria \<Rightarrow> listing list \<Rightarrow> listing list" where
  "apply_filters c df = filter (row_mask c) (filter_dates (date_range c) df)"

text \<open>
  The inclusion test as the specification words it, for comparison with the code. The
  specification gives the date range as a (min, max) pair, so the test takes that pair:
  the publication date lies within it, bounds included, and the four other criteria
  hold.
\<close>

definition spec_keeps :: "int \<times> int \<Rightarrow> criteria \<Rightarrow> listing \<Rightarrow> bool" where
  "spec_keeps dates c l \<longleftrightarrow>
     fst dates \<le> date_publication l \<and> date_publication l \<le> snd dates \<and>
     fst (annee_range c) \<le> annee l \<and> annee l \<le> snd (annee_range c) \<and>
     fst (km_range c) \<le> kilometrage_km l \<and> kilometrage_km l \<le> snd (km_range c) \<and>
     fst (prix_range c) \<le> prix_eur l \<and> prix_eur l \<le> snd (prix_range c) \<and>
     type_vendeur l \<in> set (type_vendeur_sel c)"

section \<open>Calendar dates\<close>


definition civil_from_days :: "int \<Rightarrow> int \<times> int \<times> int" where
  "civil_from_days z =
     (let z' = z + 719468;
          era = z' div 146097;
          doe = z' mod 146097;
          yoe = (doe - doe div 1460 + doe div 36524 - doe div 146096) div 365;
          doy = doe - (365 * yoe + yoe div 4 - yoe div 100);
          mp = (5 * doy + 2) div 153;
          d = doy - (153 * mp + 2) div 5 + 1;
          m = (if mp < 10 then mp + 3 else mp - 9);
          y = yoe + era * 400
      in (if m \<le> 2 then y + 1 else y, m, d))"







text \<open>Formatting with \<open>%d/%m/%Y\<close>: zero-padded day and month, four-digit year.\<close>

definition digit_char :: "int \<Rightarrow> char" where
  "digit_char n = char_of (48 + n)"

definition zero_pad2 :: "int \<Rightarrow> string" where
  "zero_pad2 n = [digit_char (n div 10 mod 10), digit_char (n mod 10)]"

definition zero_pad4 :: "int \<Rightarrow> string" where
  "zero_pad4 n = zero_pad2 (n div 100) @ zero_pad2 (n mod 100)"

definition strftime_dmY :: "int \<Rightarrow> string" where
  "strftime_dmY z =
     (case civil_from_days z of (y, m, d) \<Rightarrow>
        zero_pad2 d @ ''/'' @ zero_pad2 m @ ''/'' @ zero_pad4 y)"

section \<open>Loading (lines 21--31 and the handlers of lines 282--285)\<close>



definition map_columns :: "('d \<Rightarrow> 'e) \<Rightarrow> ('p \<Rightarrow> 'q) \<Rightarrow> ('d, 'p) row \<Rightarrow> ('e, 'q) row" where
  "map_columns f g r =
     \<lparr>titre = titre r, date_publication = f (date_publication r), annee = annee r,
      kilometrage_km = kilometrage_km r, prix_eur = g (prix_eur r), ville = ville r,
      type_vendeur = type_vendeur r, url = url r\<rparr>"







section \<open>Summary metrics (lines 119--129)\<close>

text \<open>
  A float that is either NaN or a number. Numbers are modelled as reals: rounding of
  the floating-point division is not modelled.
\<close>

datatype pyfloat = NaN | Fin real

definition mean :: "int list \<Rightarrow> pyfloat" where
  "mean xs = (if xs = [] then NaN else Fin (of_int (sum_list xs) / of_nat (length xs)))"

definition median :: "int list \<Rightarrow> pyfloat" where
  "median xs =
     (if xs = [] then NaN
      else (let s = sort xs; n = length s in
            if odd n then Fin (of_int (s ! (n div 2)))
            else Fin ((of_int (s ! (n div 2 - 1)) + of_int (s ! (n div 2))) / 2)))"

record summary =
  nombre_annonces :: nat
  prix_moyen :: pyfloat
  prix_median :: pyfloat
  kilometrage_moyen :: pyfloat

definition summarize :: "listing list \<Rightarrow> summary" where
  "summarize df_filtered =
     \<lparr>nombre_annonces = length df_filtered,
      prix_moyen = mean (map prix_eur df_filtered),
      prix_median = median (map prix_eur df_filtered),
      kilometrage_moyen = mean (map kilometrage_km df_filtered)\<rparr>"

section \<open>Trend line (lines 157--161)\<close>

definition date_num :: "listing list \<Rightarrow> int list" where
  "date_num df_filtered =
     map (\<lambda>l. date_publication l - min_list (map date_publication df_filtered)) df_filtered"

datatype np_error = TypeError | LinAlgError

text \<open>
  \<open>np.polyfit(x, y, 1)\<close>. It raises \<open>TypeError\<close> on an empty \<open>x\<close> and on vectors of
  different lengths. It then builds the matrix with columns \<open>x\<close> and 1, divides each
  column by its Euclidean norm, the square root of the sum of its squares, and solves
  the least-squares problem with \<open>np.linalg.lstsq\<close>. When the sum of the squares of the
  abscissae is zero the division yields NaN and \<open>lstsq\<close> raises \<open>LinAlgError\<close>. Otherwise
  the coefficients are what the float64 solver returns: that computation is floating
  point and is not modelled, it is the parameter \<open>lstsq\<close>.
\<close>

definition polyfit1 :: "(int list \<Rightarrow> int list \<Rightarrow> 'c) \<Rightarrow> int list \<Rightarrow> int list \<Rightarrow> np_error + 'c" where
  "polyfit1 lstsq xs ys =
     (if xs = [] \<or> length xs \<noteq> length ys then Inl TypeError
      else if sum_list (map (\<lambda>x. x * x) xs) = 0 then Inl LinAlgError
      else Inr (lstsq xs ys))"

text \<open>
  The guarded block. \<open>Inr None\<close>: the block is skipped and no trend is drawn;
  \<open>Inr (Some z)\<close>: the coefficients \<open>z\<close> are fitted; \<open>Inl e\<close>: the exception \<open>e\<close>
  leaves the block: the handler of line 284 shows an error message and the rest of the
  page is not rendered.
\<close>

definition trend_line :: "(int list \<Rightarrow> int list \<Rightarrow> 'c) \<Rightarrow> listing list \<Rightarrow> np_error + 'c option" where
  "trend_line lstsq df_filtered =
     (if length df_filtered > 1
      then (case polyfit1 lstsq (date_num df_filtered) (map prix_eur df_filtered) of
              Inl e \<Rightarrow> Inl e
            | Inr z \<Rightarrow> Inr (Some z))
      else Inr None)"

section \<open>Mean price per year (line 205)\<close>

text \<open>
  \<open>groupby('annee')\<close> with its default \<open>sort=True\<close>: one group per distinct key, keys
  ascending, each group holding its rows in frame order.
\<close>

definition groupby_annee :: "listing list \<Rightarrow> (int \<times> listing list) list" where
  "groupby_annee df =
     map (\<lambda>y. (y, filter (\<lambda>l. annee l = y) df)) (sort (remdups (map annee df)))"

definition prix_par_annee :: "listing list \<Rightarrow> (int \<times> pyfloat \<times> nat) list" where
  "prix_par_annee df_filtered =
     map (\<lambda>(y, g). (y, mean (map prix_eur g), length g)) (groupby_annee df_filtered)"

section \<open>The detailed table (lines 247--253)\<close>

text \<open>
  \<open>sort_values(key column, ascending=False)\<close>: pandas sorts descending by reversing,
  sorting ascending and reversing again.
\<close>

definition sort_values_desc :: "('a \<Rightarrow> 'k::linorder) \<Rightarrow> 'a list \<Rightarrow> 'a list" where
  "sort_values_desc f df = rev (sort_key f (rev df))"

text \<open>
  The date column is replaced by its \<open>%d/%m/%Y\<close> text first; the frame is sorted on
  that column afterwards, so the keys are compared as texts.
\<close>

definition df_display :: "listing list \<Rightarrow> (string, int) row list" where
  "df_display df_filtered =
     sort_values_desc date_publication (map (map_columns strftime_dmY id) df_filtered)"


section \<open>Example inputs\<close>

text \<open>Two listings, published on 31/01/2023 (day 19388) and on 15/12/2023 (day 19706).\<close>

definition ex_jan :: listing where
  "ex_jan = \<lparr>titre = ''Z3 1.9 roadster'', date_publication = 19388, annee = 1999,
     kilometrage_km = 120000, prix_eur = 9500, ville = ''Lyon'',
     type_vendeur = ''particulier'', url = ''https://example.org/1''\<rparr>"

definition ex_dec :: listing where
  "ex_dec = \<lparr>titre = ''Z3 2.8 coupe'', date_publication = 19706, annee = 2001,
     kilometrage_km = 98000, prix_eur = 14500, ville = ''Paris'',
     type_vendeur = ''professionnel'', url = ''https://example.org/2''\<rparr>"

text \<open>A second listing published on 31/01/2023, the day of \<open>ex_jan\<close>.\<close>

definition ex_jan_bis :: listing where
  "ex_jan_bis = \<lparr>titre = ''Z3 2.0 roadster'', date_publication = 19388, annee = 2000,
     kilometrage_km = 135000, prix_eur = 11000, ville = ''Lille'',
     type_vendeur = ''professionnel'', url = ''https://example.org/3''\<rparr>"

text \<open>
  Widget values: a date range covering the first half of 2023 (01/01/2023 to
  30/06/2023), and a date range given the wrong way round.
\<close>

definition ex_first_half :: criteria where
  "ex_first_half = \<lparr>date_range = [19358, 19538], annee_range = (1996, 2002),
     km_range = (0, 300000), prix_range = (0, 50000),
     type_vendeur_sel = [''particulier'', ''professionnel'']\<rparr>"

definition ex_inverted :: criteria where
  "ex_inverted = \<lparr>date_range = [19722, 19358], annee_range = (1996, 2002),
     km_range = (0, 300000), prix_range = (0, 50000),
     type_vendeur_sel = [''particulier'', ''professionnel'']\<rparr>"



section \<open>Properties of the filter\<close>

lemma filter_dates_subseq: "subseq (filter_dates dr df) df"
  by (simp add: filter_dates_def)

lemma filter_dates_idem: "filter_dates dr (filter_dates dr df) = filter_dates dr df"
  by (simp add: filter_dates_def)

lemma filter_dates_filter_commute:
  "filter_dates dr (filter P df) = filter P (filter_dates dr df)"
  by (auto simp add: filter_dates_def intro: filter_cong)

lemma mem_filter_dates:
  "l \<in> set (filter_dates dr df) \<longleftrightarrow>
     l \<in> set df \<and>
     (if length dr = 2 then dr ! 0 \<le> date_publication l \<and> date_publication l \<le> dr ! 1
      else True)"
  by (simp add: filter_dates_def)

lemma filter_dates_pair:
  "filter_dates [lo, hi] df =
     filter (\<lambda>l. lo \<le> date_publication l \<and> date_publication l \<le> hi) df"
  by (simp add: filter_dates_def)

text \<open>When the date input is incomplete the date test is skipped.\<close>

lemma apply_filters_incomplete_dates:
  "length (date_range c) \<noteq> 2 \<Longrightarrow> apply_filters c df = filter (row_mask c) df"
  by (simp add: apply_filters_def filter_dates_def)

text \<open>
  C5. For criteria whose date range is the pair (lo, hi), the filtered view is exactly
  the input rows, in order and with their multiplicity, that satisfy all five criteria:
  publication date within the date range (bounds included), year, mileage and price
  within their ranges, seller type among the selected ones. So a listing is in the view
  if and only if it is in the input and satisfies every criterion.
\<close>

theorem apply_filters_iff:
  assumes "date_range c = [lo, hi]"
  shows "apply_filters c df = filter (spec_keeps (lo, hi) c) df \<and>
         (l \<in> set (apply_filters c df) \<longleftrightarrow> l \<in> set df \<and> spec_keeps (lo, hi) c l)"
proof -
  have "apply_filters c df =
        filter (row_mask c)
          (filter (\<lambda>l. lo \<le> date_publication l \<and> date_publication l \<le> hi) df)"
    by (simp only: apply_filters_def assms filter_dates_pair)
  also have "\<dots> = filter (spec_keeps (lo, hi) c) df"
    unfolding filter_filter
    by (rule filter_cong[OF refl]) (auto simp add: spec_keeps_def row_mask_def)
  finally have eq: "apply_filters c df = filter (spec_keeps (lo, hi) c) df" .
  then show ?thesis by simp
qed

text \<open>
  With the first half of 2023 as date range, of a listing of January and a listing of
  December the first is kept and the second is not.
\<close>

theorem apply_filters_iff_witness:
  "date_range ex_first_half = [19358, 19538] \<and>
   spec_keeps (19358, 19538) ex_first_half ex_jan \<and>
   \<not> spec_keeps (19358, 19538) ex_first_half ex_dec \<and>
   apply_filters ex_first_half [ex_jan, ex_dec] = [ex_jan] \<and>
   ex_jan \<in> set (apply_filters ex_first_half [ex_jan, ex_dec])"
proof -
  have dr: "date_range ex_first_half = [19358, 19538]"
    by (simp add: ex_first_half_def)
  have jan: "spec_keeps (19358, 19538) ex_first_half ex_jan"
    by (simp add: spec_keeps_def ex_first_half_def ex_jan_def)
  have dec: "\<not> spec_keeps (19358, 19538) ex_first_half ex_dec"
    by (simp add: spec_keeps_def ex_first_half_def ex_dec_def)
  from apply_filters_iff[OF dr, of "[ex_jan, ex_dec]" ex_jan] jan dec
  have "apply_filters ex_first_half [ex_jan, ex_dec] = [ex_jan] \<and>
        ex_jan \<in> set (apply_filters ex_first_half [ex_jan, ex_dec])"
    by simp
  with dr jan dec show ?thesis by simp
qed

text \<open>
  C8. Criteria with an inverted range (upper bound below lower bound) in the date range,
  the year range, the mileage range or the price range give an empty filtered view of
  size 0 for every input, and no error: the filter has no failure branch.
\<close>

theorem inverted_range_empty:
  assumes "(length (date_range c) = 2 \<and> date_range c ! 1 < date_range c ! 0) \<or>
           snd (annee_range c) < fst (annee_range c) \<or>
           snd (km_range c) < fst (km_range c) \<or>
           snd (prix_range c) < fst (prix_range c)"
  shows "apply_filters c df = [] \<and> length (apply_filters c df) = 0"
proof -
  have "\<not> (row_mask c l \<and> l \<in> set (filter_dates (date_range c) df))" for l
    using assms by (auto simp add: row_mask_def mem_filter_dates)
  then have "apply_filters c df = []"
    unfolding apply_filters_def by (simp add: filter_empty_conv) blast
  then show ?thesis by simp
qed

theorem inverted_range_empty_witness:
  "length (date_range ex_inverted) = 2 \<and>
   date_range ex_inverted ! 1 < date_range ex_inverted ! 0 \<and>
   [ex_jan, ex_dec] \<noteq> [] \<and>
   apply_filters ex_inverted [ex_jan, ex_dec] = [] \<and>
   length (apply_filters ex_inverted [ex_jan, ex_dec]) = 0"
proof -
  have inv: "length (date_range ex_inverted) = 2 \<and>
             date_range ex_inverted ! 1 < date_range ex_inverted ! 0"
    by (simp add: ex_inverted_def)
  then show ?thesis
    using inverted_range_empty[of ex_inverted "[ex_jan, ex_dec]"] by simp
qed

text \<open>
  C9. The filtered view is an order-preserving subsequence of the input: every row of it
  is a row of the input, retained rows keep their relative order, and the view is never
  longer than the input.
\<close>

theorem apply_filters_subseq:
  "subseq (apply_filters c df) df \<and>
   set (apply_filters c df) \<subseteq> set df \<and>
   length (apply_filters c df) \<le> length df"
proof -
  let ?mid = "filter_dates (date_range c) df"
  have "subseq (filter (row_mask c) ?mid) ?mid"
    by simp
  then have s: "subseq (apply_filters c df) df"
    unfolding apply_filters_def using filter_dates_subseq subseq_order.order_trans by blast
  have m: "set (apply_filters c df) \<subseteq> set df"
    by (auto simp add: apply_filters_def filter_dates_def)
  have "length (apply_filters c df) \<le> length df"
    using s by (rule list_emb_length)
  with s m show ?thesis by simp
qed

text \<open>
  C10. Filtering is idempotent: applying the same criteria to an already filtered view
  returns that view unchanged.
\<close>

theorem apply_filters_idempotent:
  "apply_filters c (apply_filters c df) = apply_filters c df"
  by (simp add: apply_filters_def filter_dates_filter_commute filter_dates_idem)

section \<open>Properties of the load\<close>













section \<open>Properties of the summary\<close>

lemma mean_NaN_iff: "mean xs = NaN \<longleftrightarrow> xs = []"
  by (simp add: mean_def)

lemma median_NaN_iff: "median xs = NaN \<longleftrightarrow> xs = []"
  by (simp add: median_def Let_def)

text \<open>
  C1 (as amended). The summary never signals an error. Its count is the number of rows
  of the view, and its mean price, median price and mean mileage are NaN exactly when
  the view is empty: an empty view gives count 0 and three plain NaN values, with no
  separate "no data" condition.
\<close>

theorem summarize_NaN_iff:
  "nombre_annonces (summarize v) = length v \<and>
   (prix_moyen (summarize v) = NaN \<longleftrightarrow> v = []) \<and>
   (prix_median (summarize v) = NaN \<longleftrightarrow> v = []) \<and>
   (kilometrage_moyen (summarize v) = NaN \<longleftrightarrow> v = [])"
  by (simp add: summarize_def mean_NaN_iff median_NaN_iff)

text \<open>
  C1 as stated fails on the empty view: the summary is returned as for any other view,
  and its mean and median are NaN.
\<close>

theorem summarize_empty_counterexample:
  "summarize [] =
     \<lparr>nombre_annonces = 0, prix_moyen = NaN, prix_median = NaN, kilometrage_moyen = NaN\<rparr>"
  by (simp add: summarize_def mean_def median_def)

section \<open>Properties of the trend line\<close>

lemma date_num_same_day:
  assumes "\<forall>l \<in> set v. date_publication l = d"
  shows "date_num v = map (\<lambda>_. 0) v"
proof (cases v)
  case Nil
  then show ?thesis by (simp add: date_num_def)
next
  case (Cons l ls)
  then have ne: "map date_publication v \<noteq> []" by simp
  have "set (map date_publication v) = {d}"
    using assms Cons by auto
  then have "Min (set (map date_publication v)) = d" by simp
  then have "min_list (map date_publication v) = d"
    using min_list_Min[OF ne] by simp
  then show ?thesis
    unfolding date_num_def using assms by (intro map_cong) auto
qed

text \<open>Fewer than two rows: the block is skipped.\<close>

lemma trend_line_skipped:
  "length v < 2 \<Longrightarrow> trend_line lstsq v = Inr None"
  by (simp add: trend_line_def)

text \<open>Two or more rows that share one publication date: the block raises.\<close>

lemma trend_line_same_day:
  assumes "length v > 1" and "\<forall>l \<in> set v. date_publication l = d"
  shows "trend_line lstsq v = Inl LinAlgError"
proof -
  have "date_num v = map (\<lambda>_. 0) v"
    using assms(2) by (rule date_num_same_day)
  moreover have "v \<noteq> []" using assms(1) by auto
  ultimately show ?thesis
    using assms(1) by (simp add: trend_line_def polyfit1_def comp_def)
qed

text \<open>
  Two different publication dates in the view: the solver is called, on the day offsets
  from the view's earliest date and the prices, in frame order.
\<close>

lemma trend_line_fitted:
  fixes v :: "listing list"
  assumes l1: "l1 \<in> set v" and l2: "l2 \<in> set v"
      and ne: "date_publication l1 \<noteq> date_publication l2"
  shows "trend_line lstsq v = Inr (Some (lstsq (date_num v) (map prix_eur v)))"
proof -
  have nonempty: "v \<noteq> []" using l1 by auto
  have len: "length v > 1"
  proof (rule ccontr)
    assume "\<not> length v > 1"
    with nonempty obtain z where "v = [z]" by (cases v) auto
    with l1 l2 ne show False by auto
  qed
  have "sum_list (map (\<lambda>x. x * x) (date_num v)) \<noteq> 0"
  proof
    assume z: "sum_list (map (\<lambda>x. x * x) (date_num v)) = 0"
    have "sum_list (map (\<lambda>x. x * x) (date_num v)) = 0 \<longleftrightarrow>
          (\<forall>s \<in> set (map (\<lambda>x. x * x) (date_num v)). s = 0)"
      by (rule sum_list_nonneg_eq_0_iff) auto
    with z have all0: "x = 0" if "x \<in> set (date_num v)" for x
      using that by auto
    have "date_publication l1 - min_list (map date_publication v) = 0"
      by (rule all0) (use l1 in \<open>auto simp add: date_num_def\<close>)
    moreover have "date_publication l2 - min_list (map date_publication v) = 0"
      by (rule all0) (use l2 in \<open>auto simp add: date_num_def\<close>)
    ultimately show False using ne by simp
  qed
  then show ?thesis
    using len nonempty by (simp add: trend_line_def polyfit1_def date_num_def)
qed

text \<open>
  C4 fails on the code. A view of two listings published on the same day passes the
  guard, which counts rows; its day offsets are all 0, the fit raises \<open>LinAlgError\<close>
  and the overlay is not skipped. The same happens when the two rows are one and the
  same data point. A view of one row is skipped.
\<close>

theorem trend_line_same_day_raises:
  "date_publication ex_jan_bis = date_publication ex_jan \<and>
   date_num [ex_jan, ex_jan_bis] = [0, 0] \<and>
   trend_line lstsq [ex_jan, ex_jan_bis] = Inl LinAlgError \<and>
   trend_line lstsq [ex_jan, ex_jan] = Inl LinAlgError \<and>
   trend_line lstsq [ex_jan] = Inr None"
  by (simp add: trend_line_def polyfit1_def date_num_def ex_jan_def ex_jan_bis_def)

section \<open>Properties of the mean price per year\<close>

lemma map_fst_prix_par_annee:
  "map fst (prix_par_annee v) = sort (remdups (map annee v))"
  by (simp add: prix_par_annee_def groupby_annee_def comp_def)

lemma sorted_distinct_strict:
  "sorted_wrt (<) (sort (remdups (xs :: int list)))"
  by (simp add: strict_sorted_iff)

text \<open>
  C7. The per-year table has its years strictly increasing, and they are exactly the
  years present in the view, so each present year has one entry and an absent year has
  none. In each entry the count is the number of listings of that year in the view (at
  least one), and the mean is the sum of the prices of those listings divided by that
  count. Floating-point rounding of the division is not modelled.
\<close>

theorem prix_par_annee_groups:
  "sorted_wrt (<) (map fst (prix_par_annee v)) \<and>
   set (map fst (prix_par_annee v)) = annee ` set v \<and>
   (\<forall>(y, m, n) \<in> set (prix_par_annee v).
      n = length (filter (\<lambda>l. annee l = y) v) \<and> 0 < n \<and>
      m = Fin (of_int (sum_list (map prix_eur (filter (\<lambda>l. annee l = y) v))) / of_nat n))"
proof (intro conjI)
  show "sorted_wrt (<) (map fst (prix_par_annee v))"
    by (simp only: map_fst_prix_par_annee sorted_distinct_strict)
  show "set (map fst (prix_par_annee v)) = annee ` set v"
    by (simp only: map_fst_prix_par_annee) simp
  show "\<forall>(y, m, n) \<in> set (prix_par_annee v).
      n = length (filter (\<lambda>l. annee l = y) v) \<and> 0 < n \<and>
      m = Fin (of_int (sum_list (map prix_eur (filter (\<lambda>l. annee l = y) v))) / of_nat n)"
  proof (clarify)
    fix y m n assume "(y, m, n) \<in> set (prix_par_annee v)"
    then have y: "y \<in> annee ` set v"
      and n: "n = length (filter (\<lambda>l. annee l = y) v)"
      and m: "m = mean (map prix_eur (filter (\<lambda>l. annee l = y) v))"
      by (auto simp add: prix_par_annee_def groupby_annee_def)
    from y have ne: "filter (\<lambda>l. annee l = y) v \<noteq> []"
      by (auto simp add: filter_empty_conv)
    with n m show "n = length (filter (\<lambda>l. annee l = y) v) \<and> 0 < n \<and>
      m = Fin (of_int (sum_list (map prix_eur (filter (\<lambda>l. annee l = y) v))) / of_nat n)"
      by (simp add: mean_def)
  qed
qed

text \<open>
  A view with two listings of 2001 and one of 1999: the entry of 2001 counts two
  listings and none of the year 2000 appears.
\<close>

theorem prix_par_annee_groups_witness:
  "prix_par_annee [ex_dec, ex_jan, ex_dec] = [(1999, Fin 9500, 1), (2001, Fin 14500, 2)] \<and>
   (2 :: nat) = length (filter (\<lambda>l. annee l = 2001) [ex_dec, ex_jan, ex_dec]) \<and>
   sorted_wrt (<) (map fst (prix_par_annee [ex_dec, ex_jan, ex_dec]))"
proof -
  have val: "prix_par_annee [ex_dec, ex_jan, ex_dec] = [(1999, Fin 9500, 1), (2001, Fin 14500, 2)]"
    by (simp add: prix_par_annee_def groupby_annee_def mean_def ex_dec_def ex_jan_def)
  then have mem: "(2001, Fin 14500, 2) \<in> set (prix_par_annee [ex_dec, ex_jan, ex_dec])"
    by simp
  from prix_par_annee_groups[of "[ex_dec, ex_jan, ex_dec]"] mem
  have "(2 :: nat) = length (filter (\<lambda>l. annee l = 2001) [ex_dec, ex_jan, ex_dec]) \<and>
        sorted_wrt (<) (map fst (prix_par_annee [ex_dec, ex_jan, ex_dec]))"
    by blast
  with val show ?thesis by simp
qed

section \<open>Order of the detailed table\<close>

text \<open>
  C6 fails on the code. The table is sorted on the date column after that column has
  been turned into \<open>%d/%m/%Y\<close> texts, so rows are ordered by day of month first: of a
  listing published on 15/12/2023 and one published on 31/01/2023, the January one,
  published earlier, is shown first.
\<close>

theorem df_display_order_by_text:
  "date_publication ex_jan < date_publication ex_dec \<and>
   map titre (df_display [ex_dec, ex_jan]) = [titre ex_jan, titre ex_dec] \<and>
   map date_publication (df_display [ex_dec, ex_jan]) = [''31/01/2023'', ''15/12/2023'']"
  by code_simp

end
